theory Spec2Isabelle
  imports Main "HOL-Library.Word"
begin

unbundle bit_operations_syntax

section \<open>Machine model\<close>

text \<open>
  The embedding follows the C++ sources under \<^verbatim>\<open>app/src/main/cpp/memory\<close> for an
  LP64 target (64-bit Android): \<^verbatim>\<open>size_t\<close>, \<^verbatim>\<open>uintptr_t\<close> and \<^verbatim>\<open>void*\<close> are 64-bit words
  whose arithmetic wraps, \<^verbatim>\<open>nullptr\<close> is the word 0, and \<^verbatim>\<open>sizeof(AllocationHeader)\<close>
  (three 8-byte members, one 4-byte member, padded to 8-byte alignment) is 32.

  Execution is sequential: the mutexes and the relaxed atomics of the sources are not
  modelled, every operation runs to completion before the next one starts. Of
  \<^verbatim>\<open>MemoryPool\<close>, the constructor, \<^verbatim>\<open>allocate\<close>, \<^verbatim>\<open>deallocate\<close> and
  \<^verbatim>\<open>get_statistics\<close> are modelled; \<^verbatim>\<open>reset\<close>, \<^verbatim>\<open>warmup\<close>, \<^verbatim>\<open>dump_state\<close> and the
  destructors are not.

  Names are those of the sources. A member written with a trailing underscore there
  carries a prefix here instead (\<^verbatim>\<open>allocations_\<close> of the tracker is \<open>tr_allocations\<close>,
  \<^verbatim>\<open>blocks_\<close> of a block pool is \<open>bp_blocks\<close>), and a method that two classes share
  carries its class name.
\<close>

type_synonym ptr = "64 word"
type_synonym size_t = "64 word"

subsection \<open>The Android log\<close>

text \<open>
  Each \<^verbatim>\<open>__android_log_print\<close> call appends one entry: the level, the \<^verbatim>\<open>LOG_TAG\<close> of the
  translation unit and the leading words of the format string (arguments are not
  formatted).
\<close>

datatype log_level = DEBUG | INFO | WARN | ERROR

type_synonym log_entry = "log_level \<times> string \<times> string"

subsection \<open>Data of \<^verbatim>\<open>aligned_allocator.h\<close>\<close>

record AllocationHeader =
  hdr_raw_ptr :: ptr
  hdr_size :: size_t
  hdr_alignment :: size_t
  hdr_magic :: "32 word"

definition MAGIC_NUMBER :: "32 word" where
  "MAGIC_NUMBER = 0xDEADBEEF"

definition FREED_MAGIC :: "32 word" where
  "FREED_MAGIC = 0xFEEDFACE"

definition header_size :: size_t where
  "header_size = 32"

subsection \<open>Data of \<^verbatim>\<open>memory_tracker.h\<close>\<close>

text \<open>
  \<^verbatim>\<open>AllocationInfo\<close> without its timestamp and its (always empty) stack trace.
\<close>

record AllocationInfo =
  info_size :: size_t
  info_alignment :: size_t
  info_tag :: string

record TrackerStatistics =
  total_allocations :: size_t
  total_deallocations :: size_t
  current_allocated :: size_t
  peak_allocated :: size_t
  total_bytes_allocated :: size_t
  total_bytes_deallocated :: size_t
  allocations_by_tag :: "string \<rightharpoonup> size_t"

record MemoryTracker =
  tr_allocations :: "ptr \<rightharpoonup> AllocationInfo"
  tr_stats :: TrackerStatistics
  tr_enabled :: bool

subsection \<open>Process state\<close>

text \<open>
  What \<^verbatim>\<open>std::free\<close> does to the memory of the block it is given is up to the C
  library: it may leave the bytes as they are (\<open>Kept\<close>), or what a later read of a header
  inside the block finds is something else, given address by address (\<open>Replaced\<close>): other
  contents where the library wrote its own data or handed the memory out again, and
  \<open>None\<close> where the pages went back to the system and the read faults.
\<close>

datatype free_effect = Kept | Replaced "ptr \<Rightarrow> AllocationHeader option"

text \<open>
  The process-wide state:
  \<^item> the results \<^verbatim>\<open>std::malloc\<close> is going to return, one per call, whatever size is
    asked for, and \<^verbatim>\<open>nullptr\<close> once the list is used up;
  \<^item> the effects the calls of \<^verbatim>\<open>std::free\<close> are going to have, one per call, and
    \<open>Kept\<close> once the list is used up;
  \<^item> the live blocks of the C library, by start address, with their sizes;
  \<^item> what reading an \<^verbatim>\<open>AllocationHeader\<close> at an address yields, \<open>None\<close> where the
    read faults;
  \<^item> the four static counters of \<^verbatim>\<open>AlignedAllocator\<close>, the singleton
    \<^verbatim>\<open>MemoryTracker\<close> and the log;
  \<^item> the history of the execution as far as the tracker is concerned: the pointer of
    every call of \<^verbatim>\<open>track_deallocation\<close> that the allocator or a pool has made, in
    order. It is a record of what ran, not a variable of the program: nothing reads it.

  A property stated for every list of results and of effects holds for every behaviour
  of the C library. User bytes are not modelled, so \<^verbatim>\<open>memset\<close> on a user region leaves
  the state as it is.
\<close>

record sys =
  malloc_results :: "ptr list"
  free_results :: "free_effect list"
  malloc_blocks :: "ptr \<rightharpoonup> size_t"
  heap_headers :: "ptr \<rightharpoonup> AllocationHeader"
  aa_total_allocated :: size_t
  aa_allocation_count :: size_t
  aa_peak_allocated :: size_t
  aa_total_deallocated :: size_t
  tracker :: MemoryTracker
  log :: "log_entry list"
  track_deallocation_calls :: "ptr list"

definition LOG :: "log_level \<Rightarrow> string \<Rightarrow> string \<Rightarrow> sys \<Rightarrow> sys" where
  "LOG lvl tag msg s = s\<lparr>log := log s @ [(lvl, tag, msg)]\<rparr>"

definition malloc :: "sys \<Rightarrow> size_t \<Rightarrow> ptr \<times> sys" where
  "malloc s total_size =
     (case malloc_results s of
        [] \<Rightarrow> (0, s)
      | p # ps \<Rightarrow>
          (p, s\<lparr>malloc_results := ps,
                malloc_blocks := (if p = 0 then malloc_blocks s
                                  else (malloc_blocks s)(p \<mapsto> total_size))\<rparr>))"

text \<open>The addresses of a block of \<open>n\<close> bytes that starts at \<open>raw\<close>.\<close>

definition in_block :: "ptr \<Rightarrow> size_t \<Rightarrow> ptr \<Rightarrow> bool" where
  "in_block raw n a = (a - raw < n)"

text \<open>
  \<^verbatim>\<open>std::free\<close> of a live block ends the block and has the next effect of the list on
  the memory inside it. \<^verbatim>\<open>std::free(nullptr)\<close> does nothing; for any other pointer that
  is not the start of a live block the call is outside the contract of the C library,
  and the state stays as it is.
\<close>

definition std_free :: "sys \<Rightarrow> ptr \<Rightarrow> sys" where
  "std_free s raw =
     (case malloc_blocks s raw of
        None \<Rightarrow> s
      | Some n \<Rightarrow>
          let s1 = s\<lparr>malloc_blocks := (malloc_blocks s)(raw := None)\<rparr>
          in case free_results s1 of
               [] \<Rightarrow> s1
             | Kept # es \<Rightarrow> s1\<lparr>free_results := es\<rparr>
             | Replaced f # es \<Rightarrow>
                 s1\<lparr>free_results := es,
                    heap_headers := (\<lambda>a. if in_block raw n a then f a else heap_headers s1 a)\<rparr>)"

definition empty_stats :: TrackerStatistics where
  "empty_stats =
     \<lparr>total_allocations = 0, total_deallocations = 0, current_allocated = 0,
      peak_allocated = 0, total_bytes_allocated = 0, total_bytes_deallocated = 0,
      allocations_by_tag = Map.empty\<rparr>"

text \<open>
  The state at process start, for a given future of \<^verbatim>\<open>std::malloc\<close>: no block is
  live, no header is in memory, and every \<^verbatim>\<open>std::free\<close> is going to leave the bytes of
  its block as they are.
\<close>

definition sys0 :: "ptr list \<Rightarrow> sys" where
  "sys0 ms =
     \<lparr>malloc_results = ms, free_results = [], malloc_blocks = Map.empty,
      heap_headers = Map.empty,
      aa_total_allocated = 0, aa_allocation_count = 0, aa_peak_allocated = 0,
      aa_total_deallocated = 0,
      tracker = \<lparr>tr_allocations = Map.empty, tr_stats = empty_stats, tr_enabled = True\<rparr>,
      log = [], track_deallocation_calls = []\<rparr>"

section \<open>\<^verbatim>\<open>MemoryTracker\<close>, from \<^verbatim>\<open>memory_tracker.cpp\<close>\<close>

definition MemoryTracker_update_peak_memory :: "sys \<Rightarrow> sys" where
  "MemoryTracker_update_peak_memory s =
     (let st = tr_stats (tracker s) in
      if current_allocated st > peak_allocated st
      then LOG DEBUG ''MemoryTracker'' ''New peak memory''
             (s\<lparr>tracker := (tracker s)\<lparr>tr_stats := st\<lparr>peak_allocated := current_allocated st\<rparr>\<rparr>\<rparr>)
      else s)"

text \<open>
  \<^verbatim>\<open>allocations_by_tag[tag]\<close> reads 0 for a key that is absent (and creates it).
\<close>

definition tag_total :: "(string \<rightharpoonup> size_t) \<Rightarrow> string \<Rightarrow> size_t" where
  "tag_total m tag = (case m tag of None \<Rightarrow> 0 | Some v \<Rightarrow> v)"

definition track_allocation :: "sys \<Rightarrow> ptr \<Rightarrow> size_t \<Rightarrow> size_t \<Rightarrow> string \<Rightarrow> sys" where
  "track_allocation s p sz al tag =
     (if \<not> tr_enabled (tracker s) \<or> p = 0 then s
      else
        let t = tracker s;
            st = tr_stats t;
            st1 = st\<lparr>total_allocations := total_allocations st + 1,
                     current_allocated := current_allocated st + sz,
                     total_bytes_allocated := total_bytes_allocated st + sz\<rparr>;
            st2 = (if tag \<noteq> []
                   then st1\<lparr>allocations_by_tag :=
                          (allocations_by_tag st1)(tag \<mapsto> tag_total (allocations_by_tag st1) tag + sz)\<rparr>
                   else st1);
            t' = t\<lparr>tr_allocations :=
                     (tr_allocations t)(p \<mapsto> \<lparr>info_size = sz, info_alignment = al, info_tag = tag\<rparr>),
                   tr_stats := st2\<rparr>
        in LOG DEBUG ''MemoryTracker'' ''Tracked allocation''
             (MemoryTracker_update_peak_memory (s\<lparr>tracker := t'\<rparr>)))"

definition track_deallocation :: "sys \<Rightarrow> ptr \<Rightarrow> sys" where
  "track_deallocation s p =
     (if \<not> tr_enabled (tracker s) \<or> p = 0 then s
      else
        case tr_allocations (tracker s) p of
          None \<Rightarrow> LOG WARN ''MemoryTracker'' ''Deallocating untracked pointer'' s
        | Some info \<Rightarrow>
            let t = tracker s;
                sz = info_size info;
                tag = info_tag info;
                st = tr_stats t;
                st1 = st\<lparr>total_deallocations := total_deallocations st + 1,
                         current_allocated := current_allocated st - sz,
                         total_bytes_deallocated := total_bytes_deallocated st + sz\<rparr>;
                st2 = (if tag \<noteq> []
                       then (let v = tag_total (allocations_by_tag st1) tag - sz
                             in if v = 0
                                then st1\<lparr>allocations_by_tag := (allocations_by_tag st1)(tag := None)\<rparr>
                                else st1\<lparr>allocations_by_tag := (allocations_by_tag st1)(tag \<mapsto> v)\<rparr>)
                       else st1);
                t' = t\<lparr>tr_allocations := (tr_allocations t)(p := None), tr_stats := st2\<rparr>
            in LOG DEBUG ''MemoryTracker'' ''Tracked deallocation'' (s\<lparr>tracker := t'\<rparr>))"

text \<open>
  A call \<^verbatim>\<open>MemoryTracker::getInstance().track_deallocation(ptr)\<close> made by the allocator
  or by a pool: the call is entered in the history, then the tracker runs.
\<close>

definition call_track_deallocation :: "sys \<Rightarrow> ptr \<Rightarrow> sys" where
  "call_track_deallocation s p =
     track_deallocation (s\<lparr>track_deallocation_calls := track_deallocation_calls s @ [p]\<rparr>) p"

definition MemoryTracker_get_statistics :: "sys \<Rightarrow> TrackerStatistics" where
  "MemoryTracker_get_statistics s = tr_stats (tracker s)"

text \<open>
  \<^verbatim>\<open>detect_leaks\<close> returns the keys of the ledger in the iteration order of the
  \<^verbatim>\<open>unordered_map\<close>, which the language leaves open: the result is the set of keys. It
  logs a warning when that set is not empty.
\<close>

definition detect_leaks :: "sys \<Rightarrow> ptr set \<times> sys" where
  "detect_leaks s =
     (let leaks = dom (tr_allocations (tracker s))
      in (leaks, if leaks \<noteq> {} then LOG WARN ''MemoryTracker'' ''Detected memory leaks'' s else s))"

definition clear :: "sys \<Rightarrow> sys" where
  "clear s =
     LOG DEBUG ''MemoryTracker'' ''Memory tracker cleared''
       (s\<lparr>tracker := (tracker s)\<lparr>tr_allocations := Map.empty, tr_stats := empty_stats\<rparr>\<rparr>)"

definition set_enabled :: "sys \<Rightarrow> bool \<Rightarrow> sys" where
  "set_enabled s b = s\<lparr>tracker := (tracker s)\<lparr>tr_enabled := b\<rparr>\<rparr>"

section \<open>\<^verbatim>\<open>AlignedAllocator\<close>, from \<^verbatim>\<open>aligned_allocator.h\<close> and \<^verbatim>\<open>aligned_allocator.cpp\<close>\<close>

definition align_up :: "ptr \<Rightarrow> size_t \<Rightarrow> ptr" where
  "align_up addr alignment = (addr + alignment - 1) AND NOT (alignment - 1)"

text \<open>
  The compare-exchange loop of \<^verbatim>\<open>update_peak_memory\<close>, run by one thread: the exchange
  succeeds at its first try.
\<close>

definition AlignedAllocator_update_peak_memory :: "sys \<Rightarrow> size_t \<Rightarrow> sys" where
  "AlignedAllocator_update_peak_memory s current =
     (if current > aa_peak_allocated s
      then LOG DEBUG ''AlignedAllocator'' ''New peak memory'' (s\<lparr>aa_peak_allocated := current\<rparr>)
      else s)"

definition AlignedAllocator_allocate :: "sys \<Rightarrow> size_t \<Rightarrow> size_t \<Rightarrow> ptr \<times> sys" where
  "AlignedAllocator_allocate s sz alignment0 =
     (if alignment0 = 0 \<or> alignment0 AND (alignment0 - 1) \<noteq> 0
      then (0, LOG ERROR ''AlignedAllocator'' ''Invalid alignment'' s)
      else
        let alignment = (if alignment0 < header_size then header_size else alignment0);
            total_size = sz + alignment + header_size;
            (raw, s1) = malloc s total_size
        in if raw = 0
           then (0, LOG ERROR ''AlignedAllocator'' ''Failed to allocate'' s1)
           else
             let user_addr = align_up (raw + header_size) alignment;
                 s2 = s1\<lparr>heap_headers := (heap_headers s1)
                          (user_addr - header_size \<mapsto>
                             \<lparr>hdr_raw_ptr = raw, hdr_size = sz, hdr_alignment = alignment,
                              hdr_magic = MAGIC_NUMBER\<rparr>)\<rparr>;
                 prev_total = aa_total_allocated s2;
                 s3 = s2\<lparr>aa_total_allocated := prev_total + sz,
                         aa_allocation_count := aa_allocation_count s2 + 1\<rparr>;
                 s4 = AlignedAllocator_update_peak_memory s3 (prev_total + sz);
                 s5 = track_allocation s4 user_addr sz alignment ''AlignedAllocator''
             in (user_addr, LOG DEBUG ''AlignedAllocator'' ''Allocated'' s5))"

text \<open>
  \<^verbatim>\<open>deallocate\<close> either returns (\<open>Inr\<close>, the new state) or the process ends inside it
  (\<open>Inl\<close>, the state the process dies in): by \<^verbatim>\<open>std::abort\<close>, after the error is
  logged, or by the fault of reading the header from memory that is not there, with
  nothing logged. The header is marked FREED before the raw block goes to
  \<^verbatim>\<open>std::free\<close>; what a later read of it finds is then up to the C library.
\<close>

definition AlignedAllocator_deallocate :: "sys \<Rightarrow> ptr \<Rightarrow> sys + sys" where
  "AlignedAllocator_deallocate s p =
     (if p = 0 then Inr s
      else
        let ha = p - header_size
        in case heap_headers s ha of
             None \<Rightarrow> Inl s
           | Some header \<Rightarrow>
               if hdr_magic header \<noteq> MAGIC_NUMBER
               then Inl (if hdr_magic header = FREED_MAGIC
                         then LOG ERROR ''AlignedAllocator'' ''Double free detected'' s
                         else LOG ERROR ''AlignedAllocator''
                                ''Invalid pointer or corruption detected'' s)
               else
                 let s1 = s\<lparr>aa_total_allocated := aa_total_allocated s - hdr_size header,
                            aa_total_deallocated := aa_total_deallocated s + hdr_size header,
                            aa_allocation_count := aa_allocation_count s - 1\<rparr>;
                     s2 = call_track_deallocation s1 p;
                     s3 = LOG DEBUG ''AlignedAllocator'' ''Deallocated'' s2;
                     raw_ptr = hdr_raw_ptr header;
                     s4 = s3\<lparr>heap_headers :=
                              (heap_headers s3)(ha \<mapsto> header\<lparr>hdr_magic := FREED_MAGIC\<rparr>)\<rparr>
                 in Inr (std_free s4 raw_ptr))"

section \<open>\<^verbatim>\<open>MemoryPool::BlockPool\<close>, from \<^verbatim>\<open>memory_pool.h\<close> and \<^verbatim>\<open>memory_pool.cpp\<close>\<close>

record Block =
  data :: ptr
  in_use :: bool

text \<open>
  \<^verbatim>\<open>blocks_\<close> owns the blocks, in order of creation; \<^verbatim>\<open>free_list_\<close> is a queue of
  \<^verbatim>\<open>Block*\<close> into it. A block never moves and is never destroyed while its pool lives,
  so a \<^verbatim>\<open>Block*\<close> is the position of the block in \<^verbatim>\<open>blocks_\<close>.
\<close>

record BlockPool =
  bp_block_size :: size_t
  bp_alignment :: size_t
  bp_allow_expansion :: bool
  bp_blocks :: "Block list"
  bp_free_list :: "nat list"

text \<open>
  The three statements both allocation loops run for a fresh pointer:
  \<^verbatim>\<open>make_unique<Block>(ptr)\<close>, \<^verbatim>\<open>free_list_.push\<close>, \<^verbatim>\<open>blocks_.push_back\<close>.
\<close>

definition push_block :: "ptr \<Rightarrow> BlockPool \<Rightarrow> BlockPool" where
  "push_block p bp =
     bp\<lparr>bp_free_list := bp_free_list bp @ [length (bp_blocks bp)],
        bp_blocks := bp_blocks bp @ [\<lparr>data = p, in_use = False\<rparr>]\<rparr>"

text \<open>The constructor's loop, by the number of iterations left.\<close>

fun prealloc_loop :: "nat \<Rightarrow> BlockPool \<times> sys \<Rightarrow> BlockPool \<times> sys" where
  "prealloc_loop 0 (bp, s) = (bp, s)"
| "prealloc_loop (Suc n) (bp, s) =
     (let (p, s1) = AlignedAllocator_allocate s (bp_block_size bp) (bp_alignment bp)
      in if p \<noteq> 0 then prealloc_loop n (push_block p bp, s1)
         else (bp, LOG WARN ''MemoryPool'' ''Failed to pre-allocate block'' s1))"

definition BlockPool_ctor :: "size_t \<Rightarrow> size_t \<Rightarrow> size_t \<Rightarrow> bool \<Rightarrow> sys \<Rightarrow> BlockPool \<times> sys" where
  "BlockPool_ctor block_size initial_count alignment allow_expansion s =
     (let (bp, s1) =
            prealloc_loop (unat initial_count)
              (\<lparr>bp_block_size = block_size, bp_alignment = alignment,
                bp_allow_expansion = allow_expansion, bp_blocks = [], bp_free_list = []\<rparr>, s)
      in (bp, LOG INFO ''MemoryPool'' ''BlockPool created'' s1))"

text \<open>The loop of \<^verbatim>\<open>expand_pool\<close>; the third component counts the blocks added.\<close>

fun expand_loop :: "nat \<Rightarrow> BlockPool \<times> sys \<times> nat \<Rightarrow> BlockPool \<times> sys \<times> nat" where
  "expand_loop 0 (bp, s, allocated) = (bp, s, allocated)"
| "expand_loop (Suc n) (bp, s, allocated) =
     (let (p, s1) = AlignedAllocator_allocate s (bp_block_size bp) (bp_alignment bp)
      in if p \<noteq> 0 then expand_loop n (push_block p bp, s1, allocated + 1)
         else (bp, s1, allocated))"

definition expand_pool :: "BlockPool \<times> sys \<Rightarrow> BlockPool \<times> sys" where
  "expand_pool bs =
     (let expansion_count = max 1 (length (bp_blocks (fst bs)) div 4);
          (bp, s, allocated) = expand_loop expansion_count (fst bs, snd bs, 0)
      in (bp, if allocated > 0 then LOG INFO ''MemoryPool'' ''BlockPool expanded'' s else s))"

text \<open>
  The tail of \<^verbatim>\<open>acquire\<close>, which runs once the free-list is known not to be empty:
  the front of the queue is taken off and the block it points to is marked in use. (The
  queue only ever holds positions of blocks the pool owns, see \<open>bp_inv\<close> below.)
\<close>

definition pop_front :: "BlockPool \<times> sys \<Rightarrow> ptr \<times> BlockPool \<times> sys" where
  "pop_front bs =
     (let bp = fst bs; i = hd (bp_free_list bp); block = bp_blocks bp ! i
      in (data block,
          bp\<lparr>bp_free_list := tl (bp_free_list bp),
             bp_blocks := (bp_blocks bp)[i := block\<lparr>in_use := True\<rparr>]\<rparr>,
          snd bs))"

definition BlockPool_acquire :: "BlockPool \<times> sys \<Rightarrow> ptr \<times> BlockPool \<times> sys" where
  "BlockPool_acquire bs =
     (if bp_free_list (fst bs) = []
      then
        let bs1 = (if bp_allow_expansion (fst bs) then expand_pool bs else bs)
        in if bp_free_list (fst bs1) = []
           then (0, fst bs1, LOG WARN ''MemoryPool'' ''BlockPool exhausted'' (snd bs1))
           else pop_front bs1
      else pop_front bs)"

text \<open>The position of the first block whose data pointer is \<open>p\<close>.\<close>

fun find_block :: "ptr \<Rightarrow> Block list \<Rightarrow> nat option" where
  "find_block p [] = None"
| "find_block p (b # bs) = (if data b = p then Some 0 else map_option Suc (find_block p bs))"

definition BlockPool_release :: "BlockPool \<times> sys \<Rightarrow> ptr \<Rightarrow> BlockPool \<times> sys" where
  "BlockPool_release bs p =
     (let bp = fst bs; s = snd bs in
      if p = 0 then (bp, s)
      else
        case find_block p (bp_blocks bp) of
          Some i \<Rightarrow>
            if \<not> in_use (bp_blocks bp ! i)
            then (bp, LOG WARN ''MemoryPool'' ''Double release detected'' s)
            else (bp\<lparr>bp_blocks := (bp_blocks bp)[i := (bp_blocks bp ! i)\<lparr>in_use := False\<rparr>],
                     bp_free_list := bp_free_list bp @ [i]\<rparr>, s)
        | None \<Rightarrow> (bp, LOG ERROR ''MemoryPool'' ''Attempted to release non-pool memory'' s))"

definition owns :: "BlockPool \<Rightarrow> ptr \<Rightarrow> bool" where
  "owns bp p = (if p = 0 then False else find_block p (bp_blocks bp) \<noteq> None)"

definition get_free_count :: "BlockPool \<Rightarrow> nat" where
  "get_free_count bp = length (bp_free_list bp)"

definition get_total_count :: "BlockPool \<Rightarrow> nat" where
  "get_total_count bp = length (bp_blocks bp)"

text \<open>The count the destructor takes: the blocks whose \<^verbatim>\<open>in_use\<close> flag is set.\<close>

definition in_use_count :: "BlockPool \<Rightarrow> nat" where
  "in_use_count bp = length (filter in_use (bp_blocks bp))"

section \<open>\<^verbatim>\<open>MemoryPool\<close>, from \<^verbatim>\<open>memory_pool.h\<close> and \<^verbatim>\<open>memory_pool.cpp\<close>\<close>

record Config =
  small_block_size :: size_t
  medium_block_size :: size_t
  large_block_size :: size_t
  small_pool_count :: size_t
  medium_pool_count :: size_t
  large_pool_count :: size_t
  alignment :: size_t
  enable_statistics :: bool
  zero_on_dealloc :: bool
  allow_expansion :: bool

text \<open>
  \<^verbatim>\<open>Statistics\<close> without \<^verbatim>\<open>hit_rate\<close>, the one floating-point member (it is derived
  from \<^verbatim>\<open>cache_hits\<close> and \<^verbatim>\<open>cache_misses\<close> when a snapshot is taken).
\<close>

record Statistics =
  total_allocated :: size_t
  total_deallocated :: size_t
  current_usage :: size_t
  peak_usage :: size_t
  allocation_count :: size_t
  deallocation_count :: size_t
  cache_hits :: size_t
  cache_misses :: size_t
  small_pool_hits :: size_t
  medium_pool_hits :: size_t
  large_pool_hits :: size_t
  direct_allocations :: size_t

record DirectAllocation =
  da_ptr :: ptr
  da_size :: size_t

record MemoryPool =
  mp_config :: Config
  small_pool :: BlockPool
  medium_pool :: BlockPool
  large_pool :: BlockPool
  mp_stats :: Statistics
  mp_direct_allocations :: "ptr \<rightharpoonup> DirectAllocation"

definition Statistics_ctor :: Statistics where
  "Statistics_ctor =
     \<lparr>total_allocated = 0, total_deallocated = 0, current_usage = 0, peak_usage = 0,
      allocation_count = 0, deallocation_count = 0, cache_hits = 0, cache_misses = 0,
      small_pool_hits = 0, medium_pool_hits = 0, large_pool_hits = 0,
      direct_allocations = 0\<rparr>"

definition MemoryPool_ctor :: "Config \<Rightarrow> sys \<Rightarrow> MemoryPool \<times> sys" where
  "MemoryPool_ctor cfg s =
     (let s0 = LOG INFO ''MemoryPool'' ''Initializing MemoryPool with config'' s;
          (sp, s1) = BlockPool_ctor (small_block_size cfg) (small_pool_count cfg)
                       (alignment cfg) (allow_expansion cfg) s0;
          (mp, s2) = BlockPool_ctor (medium_block_size cfg) (medium_pool_count cfg)
                       (alignment cfg) (allow_expansion cfg) s1;
          (lp, s3) = BlockPool_ctor (large_block_size cfg) (large_pool_count cfg)
                       (alignment cfg) (allow_expansion cfg) s2
      in (\<lparr>mp_config = cfg, small_pool = sp, medium_pool = mp, large_pool = lp,
           mp_stats = Statistics_ctor, mp_direct_allocations = Map.empty\<rparr>,
          LOG INFO ''MemoryPool'' ''MemoryPool initialized successfully'' s3))"

text \<open>
  \<^verbatim>\<open>select_pool\<close> returns one of the three member pools or \<^verbatim>\<open>nullptr\<close>; the result
  names the member.
\<close>

datatype tier = Small | Medium | Large

definition select_pool :: "MemoryPool \<Rightarrow> size_t \<Rightarrow> tier option" where
  "select_pool mp sz =
     (if sz \<le> small_block_size (mp_config mp) then Some Small
      else if sz \<le> medium_block_size (mp_config mp) then Some Medium
      else if sz \<le> large_block_size (mp_config mp) then Some Large
      else None)"

fun pool_of :: "MemoryPool \<Rightarrow> tier \<Rightarrow> BlockPool" where
  "pool_of mp Small = small_pool mp"
| "pool_of mp Medium = medium_pool mp"
| "pool_of mp Large = large_pool mp"

fun set_pool :: "tier \<Rightarrow> BlockPool \<Rightarrow> MemoryPool \<Rightarrow> MemoryPool" where
  "set_pool Small bp mp = mp\<lparr>small_pool := bp\<rparr>"
| "set_pool Medium bp mp = mp\<lparr>medium_pool := bp\<rparr>"
| "set_pool Large bp mp = mp\<lparr>large_pool := bp\<rparr>"

text \<open>The three branches of \<^verbatim>\<open>allocate\<close> that count which pool was used.\<close>

fun count_hit :: "tier \<Rightarrow> Statistics \<Rightarrow> Statistics" where
  "count_hit Small st = st\<lparr>small_pool_hits := small_pool_hits st + 1\<rparr>"
| "count_hit Medium st = st\<lparr>medium_pool_hits := medium_pool_hits st + 1\<rparr>"
| "count_hit Large st = st\<lparr>large_pool_hits := large_pool_hits st + 1\<rparr>"

definition update_peak_usage :: "Statistics \<Rightarrow> Statistics" where
  "update_peak_usage st =
     (if current_usage st > peak_usage st then st\<lparr>peak_usage := current_usage st\<rparr> else st)"

definition update_statistics :: "MemoryPool \<Rightarrow> size_t \<Rightarrow> bool \<Rightarrow> bool \<Rightarrow> MemoryPool" where
  "update_statistics mp sz is_allocation is_pool_hit =
     (if \<not> enable_statistics (mp_config mp) then mp
      else
        let st = mp_stats mp in
        if is_allocation
        then
          let st1 = st\<lparr>total_allocated := total_allocated st + sz,
                       current_usage := current_usage st + sz,
                       allocation_count := allocation_count st + 1\<rparr>;
              st2 = (if is_pool_hit then st1\<lparr>cache_hits := cache_hits st1 + 1\<rparr>
                     else st1\<lparr>cache_misses := cache_misses st1 + 1\<rparr>)
          in mp\<lparr>mp_stats := update_peak_usage st2\<rparr>
        else
          mp\<lparr>mp_stats := st\<lparr>total_deallocated := total_deallocated st + sz,
                             current_usage := current_usage st - sz,
                             deallocation_count := deallocation_count st + 1\<rparr>\<rparr>)"

text \<open>
  The first half of \<^verbatim>\<open>allocate\<close>: the selected pool, if any, is asked for a block, and
  a block obtained is counted as a hit of that pool.
\<close>

definition allocate_from_pool :: "MemoryPool \<times> sys \<Rightarrow> size_t \<Rightarrow> ptr \<times> MemoryPool \<times> sys" where
  "allocate_from_pool ms sz =
     (case select_pool (fst ms) sz of
        None \<Rightarrow> (0, fst ms, snd ms)
      | Some t \<Rightarrow>
          let (p, bp, s1) = BlockPool_acquire (pool_of (fst ms) t, snd ms);
              mp1 = set_pool t bp (fst ms)
          in if p \<noteq> 0 then (p, mp1\<lparr>mp_stats := count_hit t (mp_stats mp1)\<rparr>, s1)
             else (p, mp1, s1))"

text \<open>The fall-back of \<^verbatim>\<open>allocate\<close>, run when no pool gave a block.\<close>

definition allocate_direct :: "MemoryPool \<times> sys \<Rightarrow> size_t \<Rightarrow> ptr \<times> MemoryPool \<times> sys" where
  "allocate_direct ms sz =
     (let mp = fst ms;
          (p, s1) = AlignedAllocator_allocate (snd ms) sz (alignment (mp_config mp))
      in if p \<noteq> 0
         then (p,
               mp\<lparr>mp_direct_allocations :=
                     (mp_direct_allocations mp)(p \<mapsto> \<lparr>da_ptr = p, da_size = sz\<rparr>),
                  mp_stats := (mp_stats mp)\<lparr>direct_allocations := direct_allocations (mp_stats mp) + 1\<rparr>\<rparr>,
               s1)
         else (p, mp, s1))"

definition MemoryPool_allocate :: "MemoryPool \<times> sys \<Rightarrow> size_t \<Rightarrow> ptr \<times> MemoryPool \<times> sys" where
  "MemoryPool_allocate ms sz =
     (if sz = 0 then (0, fst ms, snd ms)
      else
        let (p1, mp1, s1) = allocate_from_pool ms sz;
            is_pool_hit = (p1 \<noteq> 0);
            (p, mp2, s2) = (if p1 = 0 then allocate_direct (mp1, s1) sz else (p1, mp1, s1))
        in if p \<noteq> 0
           then (p, update_statistics mp2 sz True is_pool_hit,
                 track_allocation s2 p sz (alignment (mp_config mp2)) ''MemoryPool'')
           else (p, mp2, s2))"

text \<open>
  One of the three pool branches of \<^verbatim>\<open>deallocate\<close>: the block goes back to its pool
  and the statistics are updated by the block size of that pool, as configured.
\<close>

fun tier_block_size :: "Config \<Rightarrow> tier \<Rightarrow> size_t" where
  "tier_block_size cfg Small = small_block_size cfg"
| "tier_block_size cfg Medium = medium_block_size cfg"
| "tier_block_size cfg Large = large_block_size cfg"

definition deallocate_to_pool :: "tier \<Rightarrow> MemoryPool \<times> sys \<Rightarrow> ptr \<Rightarrow> MemoryPool \<times> sys" where
  "deallocate_to_pool t ms p =
     (let (bp, s1) = BlockPool_release (pool_of (fst ms) t, snd ms) p
      in (update_statistics (set_pool t bp (fst ms))
            (tier_block_size (mp_config (fst ms)) t) False True, s1))"

text \<open>
  \<^verbatim>\<open>deallocate\<close> returns (\<open>Inr\<close>) unless the process ends inside
  \<^verbatim>\<open>AlignedAllocator::deallocate\<close> (\<open>Inl\<close>).
\<close>

definition MemoryPool_deallocate :: "MemoryPool \<times> sys \<Rightarrow> ptr \<Rightarrow> sys + MemoryPool \<times> sys" where
  "MemoryPool_deallocate ms p =
     (let mp = fst ms; s = snd ms in
      if p = 0 then Inr (mp, s)
      else if owns (small_pool mp) p then
        (let (mp1, s1) = deallocate_to_pool Small ms p in Inr (mp1, call_track_deallocation s1 p))
      else if owns (medium_pool mp) p then
        (let (mp1, s1) = deallocate_to_pool Medium ms p in Inr (mp1, call_track_deallocation s1 p))
      else if owns (large_pool mp) p then
        (let (mp1, s1) = deallocate_to_pool Large ms p in Inr (mp1, call_track_deallocation s1 p))
      else
        case mp_direct_allocations mp p of
          Some da \<Rightarrow>
            (case AlignedAllocator_deallocate s p of
               Inl dead \<Rightarrow> Inl dead
             | Inr s1 \<Rightarrow>
                 Inr (update_statistics
                        (mp\<lparr>mp_direct_allocations := (mp_direct_allocations mp)(p := None)\<rparr>)
                        (da_size da) False False,
                      call_track_deallocation s1 p))
        | None \<Rightarrow>
            Inr (mp, call_track_deallocation
                       (LOG ERROR ''MemoryPool'' ''Attempted to deallocate unknown pointer'' s) p))"

definition MemoryPool_get_statistics :: "MemoryPool \<Rightarrow> Statistics" where
  "MemoryPool_get_statistics mp = mp_stats mp"

section \<open>Sequences of operations\<close>

text \<open>The operations of one block pool, as a client or the pool itself runs them.\<close>

datatype bp_op = Acquire | Release ptr | Expand

fun apply_bp_op :: "bp_op \<Rightarrow> BlockPool \<times> sys \<Rightarrow> BlockPool \<times> sys" where
  "apply_bp_op Acquire bs = snd (BlockPool_acquire bs)"
| "apply_bp_op (Release p) bs = BlockPool_release bs p"
| "apply_bp_op Expand bs = expand_pool bs"

text \<open>The public operations of the tracker that change its state or read its ledger.\<close>

datatype tr_op =
    TrackAllocation ptr size_t size_t string
  | TrackDeallocation ptr
  | DetectLeaks
  | SetEnabled bool
  | Clear

fun apply_tr_op :: "tr_op \<Rightarrow> sys \<Rightarrow> sys" where
  "apply_tr_op (TrackAllocation p sz al tag) s = track_allocation s p sz al tag"
| "apply_tr_op (TrackDeallocation p) s = track_deallocation s p"
| "apply_tr_op DetectLeaks s = snd (detect_leaks s)"
| "apply_tr_op (SetEnabled b) s = set_enabled s b"
| "apply_tr_op Clear s = clear s"

text \<open>
  A run of tracker operations from state \<open>s\<close> in which \<^verbatim>\<open>clear\<close> is never called and
  \<^verbatim>\<open>track_deallocation\<close> is never called for \<open>p\<close> while tracking is enabled.
\<close>

fun no_removal :: "ptr \<Rightarrow> tr_op list \<Rightarrow> sys \<Rightarrow> bool" where
  "no_removal p [] s = True"
| "no_removal p (x # xs) s =
     (x \<noteq> Clear \<and> (x \<noteq> TrackDeallocation p \<or> \<not> tr_enabled (tracker s)) \<and>
      no_removal p xs (apply_tr_op x s))"

text \<open>A client that allocates the given sizes in turn and keeps the pointers.\<close>

fun allocate_all :: "size_t list \<Rightarrow> MemoryPool \<times> sys \<Rightarrow> ptr list \<times> MemoryPool \<times> sys" where
  "allocate_all [] ms = ([], ms)"
| "allocate_all (sz # szs) ms =
     (let (p, ms1) = MemoryPool_allocate ms sz;
          (ps, ms2) = allocate_all szs ms1
      in (p # ps, ms2))"

text \<open>A client that deallocates the given pointers in turn; an abort ends the run.\<close>

fun deallocate_all :: "ptr list \<Rightarrow> MemoryPool \<times> sys \<Rightarrow> sys + MemoryPool \<times> sys" where
  "deallocate_all [] ms = Inr ms"
| "deallocate_all (p # ps) ms =
     (case MemoryPool_deallocate ms p of
        Inl dead \<Rightarrow> Inl dead
      | Inr ms1 \<Rightarrow> deallocate_all ps ms1)"

text \<open>
  The configuration of the example scenario: a small tier of four blocks of 1024 bytes,
  no medium and no large tier (block size and count 0), alignment 64, the flags at
  their defaults.
\<close>

definition example_config :: Config where
  "example_config =
     \<lparr>small_block_size = 1024, medium_block_size = 0, large_block_size = 0,
      small_pool_count = 4, medium_pool_count = 0, large_pool_count = 0,
      alignment = 64, enable_statistics = True, zero_on_dealloc = True,
      allow_expansion = True\<rparr>"

text \<open>
  A future of \<^verbatim>\<open>std::malloc\<close> for the scenario: six successful calls, the regions
  0x10000 bytes apart.
\<close>

definition example_mallocs :: "ptr list" where
  "example_mallocs = [0x10000, 0x20000, 0x30000, 0x40000, 0x50000, 0x60000]"

text \<open>The configuration the default constructor of \<^verbatim>\<open>Config\<close> builds.\<close>

definition default_config :: Config where
  "default_config =
     \<lparr>small_block_size = 8 * 1024, medium_block_size = 64 * 1024,
      large_block_size = 1024 * 1024,
      small_pool_count = 128, medium_pool_count = 32, large_pool_count = 8,
      alignment = 64, enable_statistics = True, zero_on_dealloc = True,
      allow_expansion = True\<rparr>"

text \<open>
  A configuration with one block in each of three tiers and the statistics switched
  off.
\<close>

definition three_tier_config :: Config where
  "three_tier_config =
     \<lparr>small_block_size = 1024, medium_block_size = 4096, large_block_size = 16384,
      small_pool_count = 1, medium_pool_count = 1, large_pool_count = 1,
      alignment = 64, enable_statistics = False, zero_on_dealloc = True,
      allow_expansion = True\<rparr>"

text \<open>The position of a tier in the order \<^verbatim>\<open>select_pool\<close> tests them.\<close>

fun tier_index :: "tier \<Rightarrow> nat" where
  "tier_index Small = 0"
| "tier_index Medium = 1"
| "tier_index Large = 2"

text \<open>
  The free-list of a pool holds each block that is not in use, once, and no other.
\<close>

definition bp_inv :: "BlockPool \<Rightarrow> bool" where
  "bp_inv bp =
     (distinct (bp_free_list bp) \<and>
      set (bp_free_list bp) = {i. i < length (bp_blocks bp) \<and> \<not> in_use (bp_blocks bp ! i)})"

section \<open>Properties of \<^verbatim>\<open>AlignedAllocator\<close>\<close>

lemma pow2_and_minus1: "(2::64 word) ^ k AND (2 ^ k - 1) = 0"
proof -
  have "take_bit k ((2::64 word) ^ k) = 0"
    by (rule bit_eqI) (auto simp: bit_simps)
  then show ?thesis
    by (simp only: take_bit_eq_mask mask_eq_exp_minus_1)
qed

lemma unat_pow2: "k < 64 \<Longrightarrow> unat ((2::64 word) ^ k) = 2 ^ k"
  by (simp add: unat_eq_nat_uint uint_2p word_gt_0)

lemma pow2_less_32:
  assumes k: "k < 64" and l: "(2::64 word) ^ k < 32"
  shows "k < 5"
proof -
  have "unat ((2::64 word) ^ k) < unat (32 :: 64 word)"
    using l by (simp add: word_less_nat_alt)
  then have "(2::nat) ^ k < 2 ^ 5"
    using k by (simp add: unat_pow2)
  then show ?thesis
    by (simp only: power_strict_increasing_iff)
qed

lemma align_up_mask: "align_up x (2 ^ m) AND mask m = 0"
  by (simp add: align_up_def and.assoc mask_eq_decr_exp)

lemma aligned_mod:
  assumes km: "k \<le> m" and P: "(P::64 word) AND mask m = 0"
  shows "unat P mod 2 ^ k = 0"
proof -
  have "take_bit m P = 0"
    using P by (simp add: take_bit_eq_mask)
  then have "take_bit k (take_bit m P) = 0"
    by simp
  then have "take_bit k P = 0"
    using km by (simp add: min_def)
  then have "unat (take_bit k P) = 0"
    by simp
  then have "take_bit k (unat P) = 0"
    by (simp only: unsigned_take_bit_eq)
  then show ?thesis
    by (simp only: take_bit_eq_mod)
qed

text \<open>
  C2. For an alignment \<open>A = 2 ^ k\<close> (\<open>k < 64\<close>) and a size \<open>S \<ge> 1\<close>, a pointer \<open>P\<close>
  that \<^verbatim>\<open>AlignedAllocator::allocate(S, A)\<close> returns and that is not null is a multiple of
  \<open>A\<close>. It is a multiple of the larger of \<open>A\<close> and the header size as well: below the
  header size the alignment used is the header size, a larger power of two.
\<close>

theorem allocate_aligned:
  assumes k: "k < 64" and A: "A = 2 ^ k" and S: "1 \<le> S"
    and al: "AlignedAllocator_allocate s S A = (P, s')" and P: "P \<noteq> 0"
  shows "unat P mod unat A = 0 \<and> unat P mod unat (max A header_size) = 0"
proof -
  have chk: "\<not> (A = 0 \<or> A AND (A - 1) \<noteq> 0)"
    using k by (simp add: A pow2_and_minus1)
  define m where "m = (if A < header_size then 5 else k)"
  have E: "(if A < header_size then header_size else A) = 2 ^ m"
    by (simp add: m_def A header_size_def)
  obtain raw s1 where m: "malloc s (S + 2 ^ m + header_size) = (raw, s1)"
    by (cases "malloc s (S + 2 ^ m + header_size)")
  have km: "k \<le> m"
    using pow2_less_32 [OF k] by (auto simp: m_def A header_size_def)
  have "P = align_up (raw + header_size) (2 ^ m)"
    using al P chk m E by (auto simp: AlignedAllocator_allocate_def Let_def split: if_splits)
  then have al0: "P AND mask m = 0"
    by (simp add: align_up_mask)
  have m64: "m < 64"
    using k by (simp add: m_def)
  have "max A header_size = (if A < header_size then header_size else A)"
    by (auto simp: max_def)
  then have "max A header_size = 2 ^ m"
    by (simp only: E)
  then have eff: "unat (max A header_size) = 2 ^ m"
    using m64 by (simp add: unat_pow2)
  have "unat P mod 2 ^ k = 0"
    using km al0 by (rule aligned_mod)
  then have a: "unat P mod unat A = 0"
    by (simp add: A unat_pow2 k)
  have "unat P mod 2 ^ m = 0"
    using order_refl al0 by (rule aligned_mod)
  then have b: "unat P mod unat (max A header_size) = 0"
    by (simp only: eff)
  from a b show ?thesis
    by (rule conjI)
qed

theorem allocate_aligned_witness:
  "fst (AlignedAllocator_allocate (sys0 [0x10000]) 100 16) = 0x10020 \<and>
   unat (0x10020 :: 64 word) mod unat (16 :: 64 word) = 0 \<and>
   unat (0x10020 :: 64 word) mod unat (max 16 header_size) = 0"
proof -
  have f: "fst (AlignedAllocator_allocate (sys0 [0x10000]) 100 16) = 0x10020"
    by code_simp
  then have e: "AlignedAllocator_allocate (sys0 [0x10000]) 100 16 =
      (0x10020, snd (AlignedAllocator_allocate (sys0 [0x10000]) 100 16))"
    by (simp add: prod_eq_iff)
  have "unat (0x10020 :: 64 word) mod unat (16 :: 64 word) = 0 \<and>
      unat (0x10020 :: 64 word) mod unat (max 16 header_size) = 0"
    by (rule allocate_aligned [of 4 16 100, OF _ _ _ e]) simp_all
  with f show ?thesis
    by simp
qed

text \<open>
  C3. \<^verbatim>\<open>AlignedAllocator::deallocate\<close> of a pointer whose header reads FREED, as the
  first deallocation of the pointer left it, logs the double free and ends the process
  in \<^verbatim>\<open>std::abort\<close>: the result is \<open>Inl\<close>, whatever the rest of the state is, and never
  \<open>Inr\<close>.
\<close>

theorem deallocate_freed_header_aborts:
  assumes "p \<noteq> 0"
    and "heap_headers s (p - header_size) = Some header"
    and "hdr_magic header = FREED_MAGIC"
  shows "AlignedAllocator_deallocate s p =
           Inl (LOG ERROR ''AlignedAllocator'' ''Double free detected'' s)"
  using assms
  by (simp add: AlignedAllocator_deallocate_def Let_def MAGIC_NUMBER_def FREED_MAGIC_def)

theorem deallocate_freed_header_aborts_witness:
  "\<not> isl (AlignedAllocator_deallocate (snd (AlignedAllocator_allocate (sys0 [0x10000]) 100 64)) 0x10040) \<and>
   AlignedAllocator_deallocate
     (projr (AlignedAllocator_deallocate
               (snd (AlignedAllocator_allocate (sys0 [0x10000]) 100 64)) 0x10040))
     0x10040 =
   Inl (LOG ERROR ''AlignedAllocator'' ''Double free detected''
          (projr (AlignedAllocator_deallocate
                    (snd (AlignedAllocator_allocate (sys0 [0x10000]) 100 64)) 0x10040)))"
proof -
  define s1 where "s1 = projr (AlignedAllocator_deallocate
      (snd (AlignedAllocator_allocate (sys0 [0x10000]) 100 64)) 0x10040)"
  have r: "\<not> isl (AlignedAllocator_deallocate
      (snd (AlignedAllocator_allocate (sys0 [0x10000]) 100 64)) 0x10040)"
    by code_simp
  have h: "heap_headers s1 (0x10040 - header_size) =
      Some \<lparr>hdr_raw_ptr = 0x10000, hdr_size = 100, hdr_alignment = 64,
            hdr_magic = FREED_MAGIC\<rparr>"
    unfolding s1_def by code_simp
  have "AlignedAllocator_deallocate s1 0x10040 =
      Inl (LOG ERROR ''AlignedAllocator'' ''Double free detected'' s1)"
    by (rule deallocate_freed_header_aborts [OF _ h]) simp_all
  with r show ?thesis
    unfolding s1_def by simp
qed

text \<open>
  Where the C library gives the pages of the freed block back to the system, the second
  deallocation of the pointer faults on the read of the header: the process ends there
  too, with nothing logged.
\<close>

lemma deallocate_unmapped_header_faults:
  assumes "p \<noteq> 0" and "heap_headers s (p - header_size) = None"
  shows "AlignedAllocator_deallocate s p = Inl s"
  using assms by (simp add: AlignedAllocator_deallocate_def Let_def)

lemma double_deallocate_after_unmap:
  "\<not> isl (AlignedAllocator_deallocate
      (snd (AlignedAllocator_allocate ((sys0 [0x10000])\<lparr>free_results := [Replaced (\<lambda>a. None)]\<rparr>) 100 64))
      0x10040) \<and>
   heap_headers
     (projr (AlignedAllocator_deallocate
        (snd (AlignedAllocator_allocate ((sys0 [0x10000])\<lparr>free_results := [Replaced (\<lambda>a. None)]\<rparr>) 100 64))
        0x10040))
     (0x10040 - header_size) = None \<and>
   isl (AlignedAllocator_deallocate
     (projr (AlignedAllocator_deallocate
        (snd (AlignedAllocator_allocate ((sys0 [0x10000])\<lparr>free_results := [Replaced (\<lambda>a. None)]\<rparr>) 100 64))
        0x10040))
     0x10040) \<and>
   log (projl (AlignedAllocator_deallocate
     (projr (AlignedAllocator_deallocate
        (snd (AlignedAllocator_allocate ((sys0 [0x10000])\<lparr>free_results := [Replaced (\<lambda>a. None)]\<rparr>) 100 64))
        0x10040))
     0x10040)) =
   log (projr (AlignedAllocator_deallocate
        (snd (AlignedAllocator_allocate ((sys0 [0x10000])\<lparr>free_results := [Replaced (\<lambda>a. None)]\<rparr>) 100 64))
        0x10040))"
  by code_simp

section \<open>Properties of \<^verbatim>\<open>BlockPool\<close>\<close>

lemma bp_inv_count:
  assumes "bp_inv bp"
  shows "get_free_count bp + in_use_count bp = get_total_count bp"
proof -
  have d: "distinct (bp_free_list bp)"
    and S: "set (bp_free_list bp) = {i. i < length (bp_blocks bp) \<and> \<not> in_use (bp_blocks bp ! i)}"
    using assms by (simp_all add: bp_inv_def)
  have "length (bp_free_list bp) = card (set (bp_free_list bp))"
    using distinct_card [OF d] by simp
  also have "\<dots> = length (filter (\<lambda>b. \<not> in_use b) (bp_blocks bp))"
    by (simp only: S length_filter_conv_card)
  finally show ?thesis
    using sum_length_filter_compl [of in_use "bp_blocks bp"]
    by (simp add: get_free_count_def in_use_count_def get_total_count_def)
qed

lemma bp_inv_push_block:
  assumes "bp_inv bp"
  shows "bp_inv (push_block p bp)"
proof -
  let ?n = "length (bp_blocks bp)"
  have fresh: "?n \<notin> set (bp_free_list bp)"
    using assms by (simp add: bp_inv_def)
  have "{i. i < Suc ?n \<and> \<not> in_use ((bp_blocks bp @ [\<lparr>data = p, in_use = False\<rparr>]) ! i)}
        = insert ?n {i. i < ?n \<and> \<not> in_use (bp_blocks bp ! i)}"
    by (auto simp: nth_append less_Suc_eq)
  then show ?thesis
    using assms fresh by (simp add: bp_inv_def push_block_def)
qed

lemma bp_inv_prealloc_loop:
  "bp_inv bp \<Longrightarrow> bp_inv (fst (prealloc_loop n (bp, s)))"
  by (induction n arbitrary: bp s) (auto simp: bp_inv_push_block split: prod.splits)

lemma bp_inv_ctor: "bp_inv (fst (BlockPool_ctor block_size initial_count al allow s))"
proof -
  have "bp_inv \<lparr>bp_block_size = block_size, bp_alignment = al, bp_allow_expansion = allow,
                bp_blocks = [], bp_free_list = []\<rparr>"
    by (simp add: bp_inv_def)
  then have "bp_inv (fst (prealloc_loop (unat initial_count)
      (\<lparr>bp_block_size = block_size, bp_alignment = al, bp_allow_expansion = allow,
        bp_blocks = [], bp_free_list = []\<rparr>, s)))"
    by (rule bp_inv_prealloc_loop)
  then show ?thesis
    by (simp add: BlockPool_ctor_def case_prod_beta)
qed

lemma bp_inv_expand_loop:
  "bp_inv bp \<Longrightarrow> bp_inv (fst (expand_loop n (bp, s, k)))"
  by (induction n arbitrary: bp s k) (auto simp: bp_inv_push_block split: prod.splits)

lemma bp_inv_expand_pool:
  assumes "bp_inv (fst bs)"
  shows "bp_inv (fst (expand_pool bs))"
proof -
  have "bp_inv (fst (expand_loop (max 1 (length (bp_blocks (fst bs)) div 4)) (fst bs, snd bs, 0)))"
    using assms by (rule bp_inv_expand_loop)
  then show ?thesis
    by (simp add: expand_pool_def Let_def case_prod_beta)
qed

lemma bp_inv_pop_front:
  assumes inv: "bp_inv (fst bs)" and ne: "bp_free_list (fst bs) \<noteq> []"
  shows "bp_inv (fst (snd (pop_front bs)))"
proof -
  let ?bp = "fst bs"
  obtain i rest where fl: "bp_free_list ?bp = i # rest"
    using ne by (cases "bp_free_list ?bp") auto
  have d: "distinct rest" and ni: "i \<notin> set rest"
    using inv fl by (auto simp: bp_inv_def)
  have S: "insert i (set rest) = {j. j < length (bp_blocks ?bp) \<and> \<not> in_use (bp_blocks ?bp ! j)}"
    using inv fl by (simp add: bp_inv_def)
  have mem: "(j = i \<or> j \<in> set rest) = (j < length (bp_blocks ?bp) \<and> \<not> in_use (bp_blocks ?bp ! j))" for j
    using S by (simp add: set_eq_iff)
  have i: "i < length (bp_blocks ?bp)"
    using mem [of i] by simp
  have "(j \<in> set rest) =
      (j < length (bp_blocks ?bp) \<and>
       \<not> in_use ((bp_blocks ?bp)[i := (bp_blocks ?bp ! i)\<lparr>in_use := True\<rparr>] ! j))" for j
    using mem [of j] ni i by (cases "j = i") (simp_all add: nth_list_update)
  then have "set rest =
      {j. j < length (bp_blocks ?bp) \<and>
          \<not> in_use ((bp_blocks ?bp)[i := (bp_blocks ?bp ! i)\<lparr>in_use := True\<rparr>] ! j)}"
    by (simp add: set_eq_iff)
  then show ?thesis
    using d fl by (simp add: pop_front_def Let_def bp_inv_def)
qed

lemma bp_inv_acquire:
  assumes "bp_inv (fst bs)"
  shows "bp_inv (fst (snd (BlockPool_acquire bs)))"
proof (cases "bp_free_list (fst bs) = []")
  case False
  then show ?thesis
    using assms by (simp add: BlockPool_acquire_def bp_inv_pop_front)
next
  case True
  define bs1 where "bs1 = (if bp_allow_expansion (fst bs) then expand_pool bs else bs)"
  have inv1: "bp_inv (fst bs1)"
    using assms by (simp add: bs1_def bp_inv_expand_pool)
  have "BlockPool_acquire bs =
      (if bp_free_list (fst bs1) = []
       then (0, fst bs1, LOG WARN ''MemoryPool'' ''BlockPool exhausted'' (snd bs1))
       else pop_front bs1)"
    using True by (simp add: BlockPool_acquire_def Let_def bs1_def)
  then show ?thesis
    using inv1 by (simp add: bp_inv_pop_front)
qed

lemma find_block_Some:
  "find_block p bs = Some i \<Longrightarrow> i < length bs \<and> data (bs ! i) = p"
  by (induction bs arbitrary: i) (auto split: if_splits)

lemma bp_inv_release:
  assumes inv: "bp_inv (fst bs)"
  shows "bp_inv (fst (BlockPool_release bs p))"
proof (cases "find_block p (bp_blocks (fst bs))")
  case None
  then show ?thesis
    using inv by (simp add: BlockPool_release_def Let_def)
next
  case (Some i)
  let ?bp = "fst bs"
  have i: "i < length (bp_blocks ?bp)"
    using find_block_Some [OF Some] by simp
  show ?thesis
  proof (cases "in_use (bp_blocks ?bp ! i)")
    case False
    then show ?thesis
      using inv Some by (simp add: BlockPool_release_def Let_def)
  next
    case True
    have d: "distinct (bp_free_list ?bp)"
      using inv by (simp add: bp_inv_def)
    have mem: "(j \<in> set (bp_free_list ?bp)) =
        (j < length (bp_blocks ?bp) \<and> \<not> in_use (bp_blocks ?bp ! j))" for j
      using inv by (simp add: bp_inv_def set_eq_iff)
    have ni: "i \<notin> set (bp_free_list ?bp)"
      using mem [of i] True by simp
    have "(j = i \<or> j \<in> set (bp_free_list ?bp)) =
        (j < length (bp_blocks ?bp) \<and>
         \<not> in_use ((bp_blocks ?bp)[i := (bp_blocks ?bp ! i)\<lparr>in_use := False\<rparr>] ! j))" for j
      using mem [of j] i by (cases "j = i") (simp_all add: nth_list_update)
    then have "insert i (set (bp_free_list ?bp)) =
        {j. j < length (bp_blocks ?bp) \<and>
            \<not> in_use ((bp_blocks ?bp)[i := (bp_blocks ?bp ! i)\<lparr>in_use := False\<rparr>] ! j)}"
      by (simp add: set_eq_iff)
    then show ?thesis
      using inv d Some True ni by (simp add: BlockPool_release_def Let_def bp_inv_def)
  qed
qed

lemma bp_inv_apply_bp_op:
  "bp_inv (fst bs) \<Longrightarrow> bp_inv (fst (apply_bp_op x bs))"
  by (cases x) (simp_all add: bp_inv_acquire bp_inv_release bp_inv_expand_pool)

lemma bp_inv_fold:
  "bp_inv (fst bs) \<Longrightarrow> bp_inv (fst (fold apply_bp_op ops bs))"
  by (induction ops arbitrary: bs) (simp_all add: bp_inv_apply_bp_op)

text \<open>
  C4. A block pool as its constructor leaves it, for any block size, count, alignment,
  expansion flag and process state (any future of \<^verbatim>\<open>std::malloc\<close>, failures included),
  after any sequence of \<^verbatim>\<open>acquire\<close>, \<^verbatim>\<open>release\<close> (of any pointer, so double and
  foreign releases too) and \<^verbatim>\<open>expand_pool\<close>: the size of the free-list plus the number
  of blocks marked in use is the number of blocks owned.
\<close>

theorem block_pool_accounting:
  "get_free_count (fst (fold apply_bp_op ops (BlockPool_ctor block_size initial_count al allow s)))
   + in_use_count (fst (fold apply_bp_op ops (BlockPool_ctor block_size initial_count al allow s)))
   = get_total_count (fst (fold apply_bp_op ops (BlockPool_ctor block_size initial_count al allow s)))"
  by (rule bp_inv_count [OF bp_inv_fold [OF bp_inv_ctor]])

theorem block_pool_accounting_witness:
  "get_free_count (fst (fold apply_bp_op [Acquire, Acquire, Release 0x10040, Release 0x10040, Expand, Acquire]
      (BlockPool_ctor 1024 1 64 True (sys0 [0x10000, 0x20000]))))
   + in_use_count (fst (fold apply_bp_op [Acquire, Acquire, Release 0x10040, Release 0x10040, Expand, Acquire]
      (BlockPool_ctor 1024 1 64 True (sys0 [0x10000, 0x20000]))))
   = get_total_count (fst (fold apply_bp_op [Acquire, Acquire, Release 0x10040, Release 0x10040, Expand, Acquire]
      (BlockPool_ctor 1024 1 64 True (sys0 [0x10000, 0x20000])))) \<and>
   get_total_count (fst (fold apply_bp_op [Acquire, Acquire, Release 0x10040, Release 0x10040, Expand, Acquire]
      (BlockPool_ctor 1024 1 64 True (sys0 [0x10000, 0x20000])))) = 2 \<and>
   in_use_count (fst (fold apply_bp_op [Acquire, Acquire, Release 0x10040, Release 0x10040, Expand, Acquire]
      (BlockPool_ctor 1024 1 64 True (sys0 [0x10000, 0x20000])))) = 2"
proof -
  have "get_total_count (fst (fold apply_bp_op [Acquire, Acquire, Release 0x10040, Release 0x10040, Expand, Acquire]
      (BlockPool_ctor 1024 1 64 True (sys0 [0x10000, 0x20000])))) = 2"
    by code_simp
  moreover have "in_use_count (fst (fold apply_bp_op [Acquire, Acquire, Release 0x10040, Release 0x10040, Expand, Acquire]
      (BlockPool_ctor 1024 1 64 True (sys0 [0x10000, 0x20000])))) = 2"
    by code_simp
  ultimately show ?thesis
    using block_pool_accounting [of "[Acquire, Acquire, Release 0x10040, Release 0x10040, Expand, Acquire]"
        1024 1 64 True "sys0 [0x10000, 0x20000]"]
    by blast
qed

section \<open>Properties of \<^verbatim>\<open>MemoryPool\<close>\<close>

lemma mp_config_ctor: "mp_config (fst (MemoryPool_ctor cfg s)) = cfg"
  by (simp add: MemoryPool_ctor_def Let_def case_prod_beta)

text \<open>
  C5, as stated, at the pool of the example configuration (block sizes 1024, 0, 0): a
  request of 500 bytes exceeds the block size of the large tier, and the small tier is
  selected all the same.
\<close>

theorem select_pool_counterexample:
  "large_block_size (mp_config (fst (MemoryPool_ctor example_config (sys0 example_mallocs)))) < 500 \<and>
   select_pool (fst (MemoryPool_ctor example_config (sys0 example_mallocs))) 500 = Some Small"
  by (simp add: mp_config_ctor select_pool_def example_config_def)

text \<open>
  C5, amended. \<^verbatim>\<open>select_pool\<close> returns the first tier, in the order small, medium,
  large, whose block size is at least the request (a request equal to the block size
  fits), and no tier exactly when the request exceeds the block sizes of all three
  tiers. Where the configured block sizes are ordered, small \<open>\<le>\<close> medium \<open>\<le>\<close> large, no
  tier is selected exactly when the request exceeds the block size of the large tier, and
  the tier selected has the smallest block size among the tiers that fit.
\<close>

theorem select_pool_first_fit:
  "(select_pool mp sz = Some t \<longleftrightarrow>
      sz \<le> tier_block_size (mp_config mp) t \<and>
      (\<forall>t'. tier_index t' < tier_index t \<longrightarrow> \<not> sz \<le> tier_block_size (mp_config mp) t')) \<and>
   (select_pool mp sz = None \<longleftrightarrow> (\<forall>t'. tier_block_size (mp_config mp) t' < sz)) \<and>
   (small_block_size (mp_config mp) \<le> medium_block_size (mp_config mp) \<and>
    medium_block_size (mp_config mp) \<le> large_block_size (mp_config mp) \<longrightarrow>
      (select_pool mp sz = None \<longleftrightarrow> large_block_size (mp_config mp) < sz) \<and>
      (select_pool mp sz = Some t \<longrightarrow>
         (\<forall>t'. sz \<le> tier_block_size (mp_config mp) t' \<longrightarrow>
               tier_block_size (mp_config mp) t \<le> tier_block_size (mp_config mp) t')))"
proof -
  have all_tier: "(\<forall>t'. P t') = (P Small \<and> P Medium \<and> P Large)" for P
    by (metis tier.exhaust)
  show ?thesis
    by (cases t) (auto simp: select_pool_def all_tier)
qed

theorem select_pool_first_fit_witness:
  "select_pool (fst (MemoryPool_ctor default_config (sys0 []))) 8192 = Some Small \<and>
   select_pool (fst (MemoryPool_ctor default_config (sys0 []))) 8193 \<noteq> Some Small \<and>
   select_pool (fst (MemoryPool_ctor default_config (sys0 []))) 1048577 = None"
proof -
  let ?mp = "fst (MemoryPool_ctor default_config (sys0 []))"
  have all_tier: "(\<forall>t'. P t') = (P Small \<and> P Medium \<and> P Large)" for P
    by (metis tier.exhaust)
  have "select_pool ?mp 8192 = Some Small"
    using select_pool_first_fit [of ?mp 8192 Small] by (simp add: mp_config_ctor default_config_def)
  moreover have "select_pool ?mp 8193 \<noteq> Some Small"
    using select_pool_first_fit [of ?mp 8193 Small] by (simp add: mp_config_ctor default_config_def)
  moreover have "select_pool ?mp 1048577 = None"
    using select_pool_first_fit [of ?mp 1048577 Small] by (simp add: mp_config_ctor default_config_def all_tier)
  ultimately show ?thesis
    by simp
qed

lemma call_track_deallocation_log:
  "\<exists>rest. log (call_track_deallocation s p) = log s @ rest"
  by (simp add: call_track_deallocation_def track_deallocation_def LOG_def Let_def
      split: option.splits)

text \<open>
  C6. For a pointer that is not null, that no tier owns and that the direct-allocation
  map does not hold, \<^verbatim>\<open>MemoryPool::deallocate\<close> returns (the process does not abort),
  the pool is what it was (configuration, the three block pools with their blocks and
  free-lists, statistics, direct-allocation map), and the log continues with the error
  entry for the unknown pointer.
\<close>

theorem deallocate_unknown_pointer:
  assumes "p \<noteq> 0"
    and "\<not> owns (small_pool mp) p" and "\<not> owns (medium_pool mp) p"
    and "\<not> owns (large_pool mp) p"
    and "mp_direct_allocations mp p = None"
  shows "\<exists>s' rest. MemoryPool_deallocate (mp, s) p = Inr (mp, s') \<and>
           log s' = log s @ (ERROR, ''MemoryPool'', ''Attempted to deallocate unknown pointer'') # rest"
proof -
  let ?s1 = "LOG ERROR ''MemoryPool'' ''Attempted to deallocate unknown pointer'' s"
  have "MemoryPool_deallocate (mp, s) p = Inr (mp, call_track_deallocation ?s1 p)"
    using assms by (simp add: MemoryPool_deallocate_def Let_def)
  moreover obtain rest where "log (call_track_deallocation ?s1 p) = log ?s1 @ rest"
    using call_track_deallocation_log by blast
  ultimately show ?thesis
    by (simp add: LOG_def)
qed

theorem deallocate_unknown_pointer_witness:
  "\<exists>s' rest. MemoryPool_deallocate (MemoryPool_ctor example_config (sys0 example_mallocs)) 0x1234 =
        Inr (fst (MemoryPool_ctor example_config (sys0 example_mallocs)), s') \<and>
      log s' = log (snd (MemoryPool_ctor example_config (sys0 example_mallocs))) @
        (ERROR, ''MemoryPool'', ''Attempted to deallocate unknown pointer'') # rest"
proof -
  let ?ms = "MemoryPool_ctor example_config (sys0 example_mallocs)"
  have a: "\<not> owns (small_pool (fst ?ms)) 0x1234"
    by code_simp
  have b: "\<not> owns (medium_pool (fst ?ms)) 0x1234"
    by code_simp
  have c: "\<not> owns (large_pool (fst ?ms)) 0x1234"
    by code_simp
  have d: "mp_direct_allocations (fst ?ms) 0x1234 = None"
    by (simp add: MemoryPool_ctor_def Let_def case_prod_beta)
  show ?thesis
    using deallocate_unknown_pointer [OF _ a b c d, of "snd ?ms"] by simp
qed

section \<open>Properties of \<^verbatim>\<open>MemoryTracker\<close>\<close>

text \<open>
  C7, as stated, at a tracker that recorded an allocation at 0x1000 and was then
  disabled: \<^verbatim>\<open>track_deallocation(0x1000)\<close> finds the pointer in the ledger and does not
  remove it, and \<^verbatim>\<open>track_deallocation(0x2000)\<close>, of a pointer the ledger does not hold,
  logs nothing.
\<close>

theorem track_deallocation_counterexample:
  "tr_allocations (tracker (set_enabled (track_allocation (sys0 []) 0x1000 100 64 ''x'') False)) 0x1000 \<noteq> None \<and>
   tr_allocations (tracker (track_deallocation
      (set_enabled (track_allocation (sys0 []) 0x1000 100 64 ''x'') False) 0x1000)) 0x1000 \<noteq> None \<and>
   tr_allocations (tracker (set_enabled (track_allocation (sys0 []) 0x1000 100 64 ''x'') False)) 0x2000 = None \<and>
   log (track_deallocation (set_enabled (track_allocation (sys0 []) 0x1000 100 64 ''x'') False) 0x2000) =
     log (set_enabled (track_allocation (sys0 []) 0x1000 100 64 ''x'') False)"
  by (simp add: track_deallocation_def set_enabled_def track_allocation_def sys0_def Let_def
      LOG_def MemoryTracker_update_peak_memory_def empty_stats_def tag_total_def)

text \<open>
  C7, amended. With tracking disabled or a null pointer, \<^verbatim>\<open>track_deallocation\<close>
  returns at once: the state is what it was, nothing is logged and nothing is removed.
  With tracking enabled and a pointer that is not null: when the ledger does not hold
  the pointer, it logs the warning and leaves the tracker (ledger, aggregate statistics,
  per-tag totals) as it is; when the ledger holds the pointer, the entry is removed, the
  current bytes go down by the entry's size, the deallocated bytes go up by it, the
  deallocation count goes up by one, the other aggregate counters stay, and for an entry
  with a tag the tag's total (0 for a missing key) goes down by the size and the key is
  erased when the result is 0; an entry with the empty tag leaves the per-tag totals
  alone.
\<close>

theorem track_deallocation_cases:
  "(\<not> tr_enabled (tracker s) \<or> p = 0 \<longrightarrow> track_deallocation s p = s) \<and>
   (tr_enabled (tracker s) \<and> p \<noteq> 0 \<longrightarrow>
      (tr_allocations (tracker s) p = None \<longrightarrow>
         tracker (track_deallocation s p) = tracker s \<and>
         log (track_deallocation s p) =
           log s @ [(WARN, ''MemoryTracker'', ''Deallocating untracked pointer'')]) \<and>
      (\<forall>info. tr_allocations (tracker s) p = Some info \<longrightarrow>
         (let st = tr_stats (tracker s);
              st' = tr_stats (tracker (track_deallocation s p));
              remaining = tag_total (allocations_by_tag st) (info_tag info) - info_size info
          in tr_allocations (tracker (track_deallocation s p)) = (tr_allocations (tracker s))(p := None) \<and>
             current_allocated st' = current_allocated st - info_size info \<and>
             total_bytes_deallocated st' = total_bytes_deallocated st + info_size info \<and>
             total_deallocations st' = total_deallocations st + 1 \<and>
             total_allocations st' = total_allocations st \<and>
             total_bytes_allocated st' = total_bytes_allocated st \<and>
             peak_allocated st' = peak_allocated st \<and>
             allocations_by_tag st' =
               (if info_tag info = [] then allocations_by_tag st
                else if remaining = 0 then (allocations_by_tag st)(info_tag info := None)
                else (allocations_by_tag st)(info_tag info \<mapsto> remaining)) \<and>
             tr_enabled (tracker (track_deallocation s p)))))"
  by (auto simp: track_deallocation_def Let_def LOG_def)

theorem track_deallocation_cases_witness:
  "tr_allocations (tracker (track_deallocation (track_allocation (sys0 []) 0x1000 100 64 ''x'') 0x1000)) 0x1000 = None \<and>
   current_allocated (tr_stats (tracker (track_deallocation (track_allocation (sys0 []) 0x1000 100 64 ''x'') 0x1000))) = 0 \<and>
   allocations_by_tag (tr_stats (tracker (track_deallocation (track_allocation (sys0 []) 0x1000 100 64 ''x'') 0x1000))) ''x'' = None \<and>
   log (track_deallocation (track_allocation (sys0 []) 0x1000 100 64 ''x'') 0x2000) =
     log (track_allocation (sys0 []) 0x1000 100 64 ''x'') @
       [(WARN, ''MemoryTracker'', ''Deallocating untracked pointer'')] \<and>
   track_deallocation (set_enabled (track_allocation (sys0 []) 0x1000 100 64 ''x'') False) 0x1000 =
     set_enabled (track_allocation (sys0 []) 0x1000 100 64 ''x'') False \<and>
   track_deallocation (track_allocation (sys0 []) 0x1000 100 64 ''x'') 0 =
     track_allocation (sys0 []) 0x1000 100 64 ''x''"
proof -
  let ?s = "track_allocation (sys0 []) 0x1000 100 64 ''x''"
  have en: "tr_enabled (tracker ?s)"
    by (simp add: track_allocation_def sys0_def Let_def LOG_def MemoryTracker_update_peak_memory_def)
  have off: "\<not> tr_enabled (tracker (set_enabled ?s False))"
    by (simp add: set_enabled_def)
  have i: "tr_allocations (tracker ?s) 0x1000 =
      Some \<lparr>info_size = 100, info_alignment = 64, info_tag = ''x''\<rparr>"
    by (simp add: track_allocation_def sys0_def Let_def LOG_def MemoryTracker_update_peak_memory_def)
  have n: "tr_allocations (tracker ?s) 0x2000 = None"
    by (simp add: track_allocation_def sys0_def Let_def LOG_def MemoryTracker_update_peak_memory_def)
  have st: "current_allocated (tr_stats (tracker ?s)) = 100"
    "allocations_by_tag (tr_stats (tracker ?s)) ''x'' = Some 100"
    by (simp_all add: track_allocation_def sys0_def Let_def LOG_def
        MemoryTracker_update_peak_memory_def empty_stats_def tag_total_def)
  have a: "log (track_deallocation ?s 0x2000) =
      log ?s @ [(WARN, ''MemoryTracker'', ''Deallocating untracked pointer'')]"
    using track_deallocation_cases [of ?s "0x2000"] en n by simp
  have b: "tr_allocations (tracker (track_deallocation ?s 0x1000)) 0x1000 = None \<and>
      current_allocated (tr_stats (tracker (track_deallocation ?s 0x1000))) = 0 \<and>
      allocations_by_tag (tr_stats (tracker (track_deallocation ?s 0x1000))) ''x'' = None"
    using track_deallocation_cases [of ?s "0x1000"] en i st
    by (simp add: Let_def tag_total_def)
  have c: "track_deallocation (set_enabled ?s False) 0x1000 = set_enabled ?s False"
    using track_deallocation_cases [of "set_enabled ?s False" "0x1000"] off by blast
  have d: "track_deallocation ?s 0 = ?s"
    using track_deallocation_cases [of ?s 0] by blast
  from a b c d show ?thesis
    by simp
qed

section \<open>Statistics of \<^verbatim>\<open>MemoryPool::allocate\<close>\<close>

lemma mp_stats_set_pool [simp]: "mp_stats (set_pool t bp mp) = mp_stats mp"
  by (cases t) simp_all

lemma mp_config_set_pool [simp]: "mp_config (set_pool t bp mp) = mp_config mp"
  by (cases t) simp_all

lemma update_statistics_disabled:
  "\<not> enable_statistics (mp_config mp) \<Longrightarrow> update_statistics mp sz a h = mp"
  by (simp add: update_statistics_def)

lemma allocate_from_pool_config:
  "mp_config (fst (snd (allocate_from_pool ms sz))) = mp_config (fst ms)"
  by (simp add: allocate_from_pool_def case_prod_beta Let_def split: option.splits)

lemma allocate_from_pool_stats:
  "mp_stats (fst (snd (allocate_from_pool ms sz))) =
     (if fst (allocate_from_pool ms sz) \<noteq> 0
      then count_hit (the (select_pool (fst ms) sz)) (mp_stats (fst ms))
      else mp_stats (fst ms))"
  by (simp add: allocate_from_pool_def case_prod_beta Let_def split: option.splits)

lemma allocate_from_pool_hit_tier:
  "fst (allocate_from_pool ms sz) \<noteq> 0 \<Longrightarrow> \<exists>t. select_pool (fst ms) sz = Some t"
  by (simp add: allocate_from_pool_def case_prod_beta Let_def split: option.splits)

lemma allocate_direct_config:
  "mp_config (fst (snd (allocate_direct ms sz))) = mp_config (fst ms)"
  by (simp add: allocate_direct_def case_prod_beta Let_def)

lemma allocate_direct_stats:
  "mp_stats (fst (snd (allocate_direct ms sz))) =
     (if fst (allocate_direct ms sz) \<noteq> 0
      then (mp_stats (fst ms))\<lparr>direct_allocations := direct_allocations (mp_stats (fst ms)) + 1\<rparr>
      else mp_stats (fst ms))"
  by (simp add: allocate_direct_def case_prod_beta Let_def)

text \<open>
  C8. With \<^verbatim>\<open>enable_statistics\<close> off, \<^verbatim>\<open>MemoryPool::allocate\<close> changes the statistics
  in one counter at most. When the selected pool gave a block, the hit counter of that
  tier (\<^verbatim>\<open>small_pool_hits\<close>, \<^verbatim>\<open>medium_pool_hits\<close> or \<^verbatim>\<open>large_pool_hits\<close>) is one
  higher and nothing else has changed; when no pool gave a block and the direct
  allocation succeeded, \<^verbatim>\<open>direct_allocations\<close> is one higher and nothing else has
  changed; otherwise (size 0, or the direct allocation failed too) nothing changes. In
  every case the members that \<^verbatim>\<open>update_statistics\<close> writes keep their values.
\<close>

theorem allocate_without_statistics:
  assumes off: "\<not> enable_statistics (mp_config mp)"
    and al: "MemoryPool_allocate (mp, s) sz = (p, mp', s')"
  shows "(if sz = 0 then mp_stats mp' = mp_stats mp
          else if fst (allocate_from_pool (mp, s) sz) \<noteq> 0
          then (case select_pool mp sz of
                  Some Small \<Rightarrow>
                    mp_stats mp' =
                      (mp_stats mp)\<lparr>small_pool_hits := small_pool_hits (mp_stats mp) + 1\<rparr>
                | Some Medium \<Rightarrow>
                    mp_stats mp' =
                      (mp_stats mp)\<lparr>medium_pool_hits := medium_pool_hits (mp_stats mp) + 1\<rparr>
                | Some Large \<Rightarrow>
                    mp_stats mp' =
                      (mp_stats mp)\<lparr>large_pool_hits := large_pool_hits (mp_stats mp) + 1\<rparr>
                | None \<Rightarrow> False)
          else if p \<noteq> 0
          then mp_stats mp' =
                 (mp_stats mp)\<lparr>direct_allocations := direct_allocations (mp_stats mp) + 1\<rparr>
          else mp_stats mp' = mp_stats mp) \<and>
         total_allocated (mp_stats mp') = total_allocated (mp_stats mp) \<and>
         total_deallocated (mp_stats mp') = total_deallocated (mp_stats mp) \<and>
         current_usage (mp_stats mp') = current_usage (mp_stats mp) \<and>
         peak_usage (mp_stats mp') = peak_usage (mp_stats mp) \<and>
         allocation_count (mp_stats mp') = allocation_count (mp_stats mp) \<and>
         deallocation_count (mp_stats mp') = deallocation_count (mp_stats mp) \<and>
         cache_hits (mp_stats mp') = cache_hits (mp_stats mp) \<and>
         cache_misses (mp_stats mp') = cache_misses (mp_stats mp)"
proof (cases "sz = 0")
  case True
  then show ?thesis
    using al by (simp add: MemoryPool_allocate_def)
next
  case False
  obtain p1 mp1 s1 where fp: "allocate_from_pool (mp, s) sz = (p1, mp1, s1)"
    by (cases "allocate_from_pool (mp, s) sz") auto
  have c1: "mp_config mp1 = mp_config mp"
    using allocate_from_pool_config [of "(mp, s)" sz] fp by simp
  have st1: "mp_stats mp1 =
      (if p1 \<noteq> 0 then count_hit (the (select_pool mp sz)) (mp_stats mp) else mp_stats mp)"
    using allocate_from_pool_stats [of "(mp, s)" sz] fp by simp
  show ?thesis
  proof (cases "p1 = 0")
    case hit: False
    then obtain t where t: "select_pool mp sz = Some t"
      using allocate_from_pool_hit_tier [of "(mp, s)" sz] fp by auto
    have "mp' = mp1"
      using al False hit fp off c1
      by (simp add: MemoryPool_allocate_def Let_def update_statistics_disabled)
    then have "mp_stats mp' = count_hit t (mp_stats mp)"
      using st1 hit t by simp
    then show ?thesis
      using False hit fp t by (cases t) simp_all
  next
    case miss: True
    obtain p2 mp2 s2 where dp: "allocate_direct (mp1, s1) sz = (p2, mp2, s2)"
      by (cases "allocate_direct (mp1, s1) sz") auto
    have c2: "mp_config mp2 = mp_config mp"
      using allocate_direct_config [of "(mp1, s1)" sz] dp c1 by simp
    have st2: "mp_stats mp2 =
        (if p2 \<noteq> 0
         then (mp_stats mp)\<lparr>direct_allocations := direct_allocations (mp_stats mp) + 1\<rparr>
         else mp_stats mp)"
      using allocate_direct_stats [of "(mp1, s1)" sz] dp st1 miss by simp
    have "mp' = mp2 \<and> p = p2"
      using al False miss fp dp off c2
      by (simp add: MemoryPool_allocate_def Let_def update_statistics_disabled split: if_splits)
    then show ?thesis
      using False miss fp st2 by simp
  qed
qed


theorem allocate_without_statistics_witness:
  "mp_stats (fst (snd (MemoryPool_allocate
      (MemoryPool_ctor three_tier_config (sys0 example_mallocs)) 500))) =
     (mp_stats (fst (MemoryPool_ctor three_tier_config (sys0 example_mallocs))))
       \<lparr>small_pool_hits := 1\<rparr> \<and>
   mp_stats (fst (snd (MemoryPool_allocate
      (MemoryPool_ctor three_tier_config (sys0 example_mallocs)) 2000))) =
     (mp_stats (fst (MemoryPool_ctor three_tier_config (sys0 example_mallocs))))
       \<lparr>medium_pool_hits := 1\<rparr> \<and>
   mp_stats (fst (snd (MemoryPool_allocate
      (MemoryPool_ctor three_tier_config (sys0 example_mallocs)) 10000))) =
     (mp_stats (fst (MemoryPool_ctor three_tier_config (sys0 example_mallocs))))
       \<lparr>large_pool_hits := 1\<rparr> \<and>
   mp_stats (fst (snd (MemoryPool_allocate
      (MemoryPool_ctor three_tier_config (sys0 example_mallocs)) 20000))) =
     (mp_stats (fst (MemoryPool_ctor three_tier_config (sys0 example_mallocs))))
       \<lparr>direct_allocations := 1\<rparr>"
proof -
  let ?ms = "MemoryPool_ctor three_tier_config (sys0 example_mallocs)"
  have off: "\<not> enable_statistics (mp_config (fst ?ms))"
    by (simp add: mp_config_ctor three_tier_config_def)
  have e: "MemoryPool_allocate (fst ?ms, snd ?ms) sz =
      (fst (MemoryPool_allocate ?ms sz), fst (snd (MemoryPool_allocate ?ms sz)),
       snd (snd (MemoryPool_allocate ?ms sz)))" for sz
    by simp
  have st0: "mp_stats (fst ?ms) = Statistics_ctor"
    by (simp add: MemoryPool_ctor_def Let_def case_prod_beta)
  have sel: "select_pool (fst ?ms) 500 = Some Small"
    "select_pool (fst ?ms) 2000 = Some Medium"
    "select_pool (fst ?ms) 10000 = Some Large"
    by (simp_all add: select_pool_def mp_config_ctor three_tier_config_def)
  have hit: "fst (allocate_from_pool (fst ?ms, snd ?ms) 500) \<noteq> 0"
    "fst (allocate_from_pool (fst ?ms, snd ?ms) 2000) \<noteq> 0"
    "fst (allocate_from_pool (fst ?ms, snd ?ms) 10000) \<noteq> 0"
    by code_simp+
  have miss: "fst (allocate_from_pool (fst ?ms, snd ?ms) 20000) = 0"
    "fst (MemoryPool_allocate ?ms 20000) \<noteq> 0"
    by code_simp+
  have a: "mp_stats (fst (snd (MemoryPool_allocate ?ms 500))) =
      (mp_stats (fst ?ms))\<lparr>small_pool_hits := 1\<rparr>"
    using allocate_without_statistics [OF off e [of 500]] hit(1) sel(1)
    by (simp add: st0 Statistics_ctor_def)
  have b: "mp_stats (fst (snd (MemoryPool_allocate ?ms 2000))) =
      (mp_stats (fst ?ms))\<lparr>medium_pool_hits := 1\<rparr>"
    using allocate_without_statistics [OF off e [of 2000]] hit(2) sel(2)
    by (simp add: st0 Statistics_ctor_def)
  have c: "mp_stats (fst (snd (MemoryPool_allocate ?ms 10000))) =
      (mp_stats (fst ?ms))\<lparr>large_pool_hits := 1\<rparr>"
    using allocate_without_statistics [OF off e [of 10000]] hit(3) sel(3)
    by (simp add: st0 Statistics_ctor_def)
  have d: "mp_stats (fst (snd (MemoryPool_allocate ?ms 20000))) =
      (mp_stats (fst ?ms))\<lparr>direct_allocations := 1\<rparr>"
    using allocate_without_statistics [OF off e [of 20000]] miss
    by (simp add: st0 Statistics_ctor_def)
  from a b c d show ?thesis
    by simp
qed

section \<open>Calls of the tracker from \<^verbatim>\<open>MemoryPool::deallocate\<close>\<close>

lemma calls_LOG [simp]:
  "track_deallocation_calls (LOG lvl tag msg s) = track_deallocation_calls s"
  by (simp add: LOG_def)

lemma tracker_LOG [simp]: "tracker (LOG lvl tag msg s) = tracker s"
  by (simp add: LOG_def)

lemma calls_track_deallocation:
  "track_deallocation_calls (track_deallocation s p) = track_deallocation_calls s"
  by (simp add: track_deallocation_def Let_def split: option.splits)

lemma calls_call_track_deallocation:
  "track_deallocation_calls (call_track_deallocation s p) = track_deallocation_calls s @ [p]"
  by (simp add: call_track_deallocation_def calls_track_deallocation)

lemma calls_std_free:
  "track_deallocation_calls (std_free s raw) = track_deallocation_calls s"
  by (simp add: std_free_def Let_def split: option.splits list.splits free_effect.splits)

lemma calls_release:
  "track_deallocation_calls (snd (BlockPool_release bs p)) = track_deallocation_calls (snd bs)"
  by (simp add: BlockPool_release_def Let_def split: option.splits)

lemma calls_deallocate_to_pool:
  "track_deallocation_calls (snd (deallocate_to_pool t ms p)) = track_deallocation_calls (snd ms)"
  using calls_release [of "(pool_of (fst ms) t, snd ms)" p]
  by (simp add: deallocate_to_pool_def case_prod_beta)

lemma calls_AlignedAllocator_deallocate:
  assumes "p \<noteq> 0"
  shows "case AlignedAllocator_deallocate s p of
           Inl dead \<Rightarrow> track_deallocation_calls dead = track_deallocation_calls s
         | Inr s1 \<Rightarrow> track_deallocation_calls s1 = track_deallocation_calls s @ [p]"
  using assms
  by (simp add: AlignedAllocator_deallocate_def Let_def calls_std_free
      calls_call_track_deallocation split: option.splits)

text \<open>
  C9, as stated, at the pool of the example configuration after \<^verbatim>\<open>allocate(2000)\<close>, a
  direct allocation at 0x50040: no \<^verbatim>\<open>track_deallocation\<close> has been called so far, and
  when \<^verbatim>\<open>MemoryPool::deallocate\<close> of the pointer has returned it has been called twice
  with this pointer, once inside \<^verbatim>\<open>AlignedAllocator::deallocate\<close> and once at the end of
  \<^verbatim>\<open>MemoryPool::deallocate\<close>.
\<close>

theorem deallocate_tracker_calls_counterexample:
  "fst (MemoryPool_allocate (MemoryPool_ctor example_config (sys0 example_mallocs)) 2000) = 0x50040 \<and>
   track_deallocation_calls
     (snd (snd (MemoryPool_allocate (MemoryPool_ctor example_config (sys0 example_mallocs)) 2000))) = [] \<and>
   \<not> isl (MemoryPool_deallocate
            (snd (MemoryPool_allocate (MemoryPool_ctor example_config (sys0 example_mallocs)) 2000))
            0x50040) \<and>
   track_deallocation_calls
     (snd (projr (MemoryPool_deallocate
            (snd (MemoryPool_allocate (MemoryPool_ctor example_config (sys0 example_mallocs)) 2000))
            0x50040))) = [0x50040, 0x50040]"
  by code_simp

text \<open>
  C9, amended. \<^verbatim>\<open>MemoryPool::deallocate\<close> of a pointer that is not null, whether
  tracking is enabled or not, returns after exactly one call of \<^verbatim>\<open>track_deallocation\<close>,
  made with this pointer, when a tier owns the pointer and when the pointer is unknown
  (no tier owns it, the direct-allocation map does not hold it). For a pointer the
  direct-allocation map holds, it returns after exactly two calls with this pointer,
  the first made by \<^verbatim>\<open>AlignedAllocator::deallocate\<close>, or the process ends inside
  \<^verbatim>\<open>AlignedAllocator::deallocate\<close> before any call.
\<close>

theorem deallocate_tracker_calls:
  assumes p: "p \<noteq> 0"
  shows "if owns (small_pool mp) p \<or> owns (medium_pool mp) p \<or> owns (large_pool mp) p \<or>
            mp_direct_allocations mp p = None
         then \<exists>mp' s'. MemoryPool_deallocate (mp, s) p = Inr (mp', s') \<and>
                track_deallocation_calls s' = track_deallocation_calls s @ [p]
         else (case MemoryPool_deallocate (mp, s) p of
                 Inl dead \<Rightarrow> track_deallocation_calls dead = track_deallocation_calls s
               | Inr (mp', s') \<Rightarrow>
                   track_deallocation_calls s' = track_deallocation_calls s @ [p, p])"
proof -
  have pool: "track_deallocation_calls
      (call_track_deallocation (snd (deallocate_to_pool t (mp, s) p)) p) =
      track_deallocation_calls s @ [p]" for t
    using calls_deallocate_to_pool [of t "(mp, s)" p]
    by (simp add: calls_call_track_deallocation)
  have unknown: "track_deallocation_calls (call_track_deallocation
      (LOG ERROR ''MemoryPool'' ''Attempted to deallocate unknown pointer'' s) p) =
      track_deallocation_calls s @ [p]"
    by (simp add: calls_call_track_deallocation)
  have direct: "case AlignedAllocator_deallocate s p of
      Inl dead \<Rightarrow> track_deallocation_calls dead = track_deallocation_calls s
    | Inr s1 \<Rightarrow> track_deallocation_calls (call_track_deallocation s1 p) =
        track_deallocation_calls s @ [p, p]"
    using calls_AlignedAllocator_deallocate [OF p, of s]
    by (auto simp: calls_call_track_deallocation split: sum.splits)
  show ?thesis
    using p pool unknown direct
    by (auto simp: MemoryPool_deallocate_def Let_def case_prod_beta split: sum.splits option.splits)
qed

theorem deallocate_tracker_calls_witness:
  "\<exists>mp' s'. MemoryPool_deallocate
        (snd (MemoryPool_allocate (MemoryPool_ctor example_config (sys0 example_mallocs)) 500)) 0x10040 =
        Inr (mp', s') \<and>
      track_deallocation_calls s' =
        track_deallocation_calls
          (snd (snd (MemoryPool_allocate (MemoryPool_ctor example_config (sys0 example_mallocs)) 500)))
        @ [0x10040]"
proof -
  let ?X = "snd (MemoryPool_allocate (MemoryPool_ctor example_config (sys0 example_mallocs)) 500)"
  have p: "(0x10040 :: 64 word) \<noteq> 0"
    by simp
  have o: "owns (small_pool (fst ?X)) 0x10040"
    by code_simp
  show ?thesis
    using deallocate_tracker_calls [OF p, of "fst ?X" "snd ?X"] o by simp
qed

section \<open>Deallocations the tracker does not see\<close>

lemma track_deallocation_noop:
  "\<not> tr_enabled (tracker s) \<or> q = 0 \<Longrightarrow> track_deallocation s q = s"
  by (auto simp: track_deallocation_def)

lemma tracker_detect_leaks: "tracker (snd (detect_leaks s)) = tracker s"
  by (simp add: detect_leaks_def Let_def LOG_def)

lemma apply_tr_op_keeps:
  assumes "x \<noteq> Clear" and "x \<noteq> TrackDeallocation p \<or> \<not> tr_enabled (tracker s)"
    and "tr_allocations (tracker s) p \<noteq> None"
  shows "tr_allocations (tracker (apply_tr_op x s)) p \<noteq> None"
proof (cases x)
  case (TrackAllocation q sz al tag)
  then show ?thesis
    using assms
    by (simp add: track_allocation_def Let_def MemoryTracker_update_peak_memory_def)
next
  case (TrackDeallocation q)
  then show ?thesis
    using assms by (auto simp: track_deallocation_def Let_def split: option.splits)
next
  case DetectLeaks
  then show ?thesis
    using assms by (simp add: tracker_detect_leaks)
next
  case (SetEnabled b)
  then show ?thesis
    using assms by (simp add: set_enabled_def)
next
  case Clear
  then show ?thesis
    using assms by simp
qed

lemma no_removal_keeps:
  "no_removal p ops s \<Longrightarrow> tr_allocations (tracker s) p \<noteq> None \<Longrightarrow>
   tr_allocations (tracker (fold apply_tr_op ops s)) p \<noteq> None"
proof (induction ops arbitrary: s)
  case Nil
  then show ?case by simp
next
  case (Cons x xs)
  have "tr_allocations (tracker (apply_tr_op x s)) p \<noteq> None"
    using Cons.prems by (intro apply_tr_op_keeps) simp_all
  then show ?case
    using Cons by simp
qed

lemma detect_leaks_mem: "(p \<in> fst (detect_leaks s)) = (tr_allocations (tracker s) p \<noteq> None)"
  by (auto simp: detect_leaks_def Let_def)

text \<open>
  C10, as stated, at a tracker that recorded an allocation at 0x1000, was disabled and
  then told of the deallocation: the entry is live, and it is gone after tracking is
  enabled again and \<^verbatim>\<open>track_deallocation(0x1000)\<close> is called once more, with no call of
  \<^verbatim>\<open>clear\<close>.
\<close>

theorem disabled_deallocation_counterexample:
  "Clear \<notin> set [SetEnabled True, TrackDeallocation 0x1000] \<and>
   0x1000 \<in> fst (detect_leaks (track_deallocation
      (set_enabled (track_allocation (sys0 []) 0x1000 100 64 ''x'') False) 0x1000)) \<and>
   0x1000 \<notin> fst (detect_leaks (fold apply_tr_op [SetEnabled True, TrackDeallocation 0x1000]
      (track_deallocation (set_enabled (track_allocation (sys0 []) 0x1000 100 64 ''x'') False) 0x1000)))"
  by (simp add: detect_leaks_mem track_deallocation_def set_enabled_def track_allocation_def
      sys0_def Let_def LOG_def MemoryTracker_update_peak_memory_def empty_stats_def tag_total_def)

text \<open>
  C10, amended. \<^verbatim>\<open>track_deallocation\<close> returns the state it was given, log included,
  whenever tracking is disabled or the pointer is null. So after a tracked allocation of
  \<open>p\<close>, with tracking disabled next, \<^verbatim>\<open>track_deallocation(p)\<close> changes nothing and
  \<^verbatim>\<open>detect_leaks\<close> reports \<open>p\<close>; it goes on reporting \<open>p\<close> through every run of tracker
  operations in which \<^verbatim>\<open>clear\<close> is not called and \<^verbatim>\<open>track_deallocation(p)\<close> is not
  called with tracking enabled; after \<^verbatim>\<open>clear\<close> it reports \<open>p\<close> no more.
\<close>

theorem disabled_deallocation_keeps_entry:
  assumes en: "tr_enabled (tracker s)" and p: "p \<noteq> 0"
    and s2: "s2 = set_enabled (track_allocation s p sz al tag) False"
    and ops: "no_removal p ops (track_deallocation s2 p)"
  shows "(\<forall>s' q. \<not> tr_enabled (tracker s') \<or> q = 0 \<longrightarrow> track_deallocation s' q = s') \<and>
         track_deallocation s2 p = s2 \<and>
         p \<in> fst (detect_leaks (track_deallocation s2 p)) \<and>
         p \<in> fst (detect_leaks (fold apply_tr_op ops (track_deallocation s2 p))) \<and>
         p \<notin> fst (detect_leaks (clear (fold apply_tr_op ops (track_deallocation s2 p))))"
proof -
  have off: "\<not> tr_enabled (tracker s2)"
    by (simp add: s2 set_enabled_def)
  then have noop: "track_deallocation s2 p = s2"
    by (simp add: track_deallocation_noop)
  have live: "tr_allocations (tracker s2) p \<noteq> None"
    using en p
    by (simp add: s2 set_enabled_def track_allocation_def Let_def MemoryTracker_update_peak_memory_def)
  have "tr_allocations (tracker (fold apply_tr_op ops s2)) p \<noteq> None"
    using ops live by (simp add: noop no_removal_keeps)
  moreover have "tr_allocations (tracker (clear t)) p = None" for t
    by (simp add: clear_def)
  ultimately show ?thesis
    using noop live by (simp add: detect_leaks_mem track_deallocation_noop)
qed

theorem disabled_deallocation_keeps_entry_witness:
  "track_deallocation (set_enabled (track_allocation (sys0 []) 0x1000 100 64 ''x'') False) 0x1000 =
     set_enabled (track_allocation (sys0 []) 0x1000 100 64 ''x'') False \<and>
   0x1000 \<in> fst (detect_leaks (fold apply_tr_op
      [TrackDeallocation 0x1000, TrackAllocation 0x2000 8 64 ''y'', DetectLeaks, SetEnabled True,
       TrackDeallocation 0x2000]
      (track_deallocation (set_enabled (track_allocation (sys0 []) 0x1000 100 64 ''x'') False) 0x1000)))"
proof -
  let ?s2 = "set_enabled (track_allocation (sys0 []) 0x1000 100 64 ''x'') False"
  let ?ops = "[TrackDeallocation 0x1000, TrackAllocation 0x2000 8 64 ''y'', DetectLeaks,
               SetEnabled True, TrackDeallocation 0x2000]"
  have en: "tr_enabled (tracker (sys0 []))"
    by (simp add: sys0_def)
  have p: "(0x1000 :: 64 word) \<noteq> 0"
    by simp
  have noop: "track_deallocation ?s2 0x1000 = ?s2"
    by (simp add: track_deallocation_noop set_enabled_def)
  have ops: "no_removal 0x1000 ?ops (track_deallocation ?s2 0x1000)"
    by (simp add: noop)
       (simp add: set_enabled_def track_deallocation_def track_allocation_def
          tracker_detect_leaks Let_def)
  show ?thesis
    using disabled_deallocation_keeps_entry [OF en p refl ops] by blast
qed

section \<open>The example scenario\<close>

text \<open>
  C1. The scenario of the specification on the code: four allocations of 500 bytes, a
  fifth that makes the small pool expand, one of 2000 bytes that no tier takes, then
  the six pointers deallocated in the order they were returned. The five small-tier
  allocations each add the requested 500 bytes to \<^verbatim>\<open>current_usage\<close> and the direct one
  adds 2000; the five small-tier deallocations each subtract the block size 1024 and the
  direct one subtracts the recorded 2000. \<^verbatim>\<open>current_usage\<close> is 4500 after the
  allocations and ends at \<open>4500 - 7120\<close>, which wraps to \<open>2^64 - 2620\<close>, not at 0.
\<close>

theorem example_scenario_current_usage:
  "(let ms0 = MemoryPool_ctor example_config (sys0 example_mallocs);
        (ps, ms1) = allocate_all [500, 500, 500, 500, 500, 2000] ms0
    in (ps,
        small_pool_hits (MemoryPool_get_statistics (fst ms1)),
        direct_allocations (MemoryPool_get_statistics (fst ms1)),
        current_usage (MemoryPool_get_statistics (fst ms1)),
        map_sum (\<lambda>dead. ()) (\<lambda>ms. current_usage (MemoryPool_get_statistics (fst ms)))
          (deallocate_all ps ms1)))
   = ([0x10040, 0x20040, 0x30040, 0x40040, 0x50040, 0x60040], 5, 1, 4500,
      Inr (0 - 2620))"
  by code_simp

end
